theory Spec2Isabelle
  imports
    Main
    "HOL-Library.Char_ord"
    "HOL-Library.List_Lexorder"
    "HOL-Library.Product_Lexorder"
    "HOL-Library.Multiset"
begin

section \<open>The MusicBrainz service of piper: data model\<close>

text \<open>
  The embedding follows \<^verbatim>\<open>src/service/musicbrainz/musicbrainz.go\<close>.
  A Go \<^verbatim>\<open>string\<close> is a sequence of bytes: it is a \<^typ>\<open>string\<close> here, with
  \<^verbatim>\<open>len\<close> as \<^const>\<open>length\<close> and the comparison \<^verbatim>\<open><\<close> as the lexicographic
  order on bytes (the order of \<^theory_text>\<open>List_Lexorder\<close> over \<^theory_text>\<open>Char_ord\<close>).
  Field names are global in a record, so the fields of the structs that share a
  name (\<^verbatim>\<open>ID\<close>, \<^verbatim>\<open>Title\<close>, \<^verbatim>\<open>Name\<close>, \<^verbatim>\<open>Artist\<close>) carry the struct as a prefix
  everywhere but in \<^verbatim>\<open>MusicBrainzRelease\<close> and \<^verbatim>\<open>SearchParams\<close>.
\<close>

record MusicBrainzArtistCredit =
  Credit_Artist_ID :: string
  Credit_Artist_Name :: string
  Credit_Artist_SortName :: string
  Credit_Joinphrase :: string
  Credit_Name :: string

record MusicBrainzRelease =
  ID :: string
  Title :: string
  Status :: string
  Date :: string
  Country :: string
  Disambiguation :: string
  TrackCount :: int

record MusicBrainzRecording =
  Recording_ID :: string
  Recording_Title :: string
  Length :: int
  ISRCs :: "string list"
  ArtistCredit :: "MusicBrainzArtistCredit list"
  Releases :: "MusicBrainzRelease list"

record SearchParams =
  Track :: string
  Artist :: string
  Release :: string

section \<open>GetBestRelease\<close>

text \<open>
  The comparison closure handed to \<^verbatim>\<open>sort.SliceStable\<close> (lines 212 to 235), on the
  two releases it reads.
\<close>

definition releaseLess :: "MusicBrainzRelease \<Rightarrow> MusicBrainzRelease \<Rightarrow> bool" where
  "releaseLess a b =
     (let dateA = Date a; dateB = Date b;
          validDateA = (length dateA \<ge> 4);
          validDateB = (length dateB \<ge> 4)
      in if validDateA \<and> \<not> validDateB then True
         else if \<not> validDateA \<and> validDateB then False
         else if dateA \<noteq> dateB then dateA < dateB
         else if Title a \<noteq> Title b then Title a < Title b
         else ID a < ID b)"

text \<open>
  \<^verbatim>\<open>sort.SliceStable\<close> belongs to Go's standard library. Its contract is a stable
  sort by the closure; it is an insertion sort here, as the library's own is on
  short slices: each element in turn moves left past the elements of the sorted
  prefix that it is less than, and stops behind those it is not less than.
\<close>

fun insertStable :: "('a \<Rightarrow> 'a \<Rightarrow> bool) \<Rightarrow> 'a \<Rightarrow> 'a list \<Rightarrow> 'a list" where
  "insertStable lt x [] = [x]"
| "insertStable lt x (y # ys) =
     (if lt x y then x # y # ys else y # insertStable lt x ys)"

definition SliceStable :: "('a \<Rightarrow> 'a \<Rightarrow> bool) \<Rightarrow> 'a list \<Rightarrow> 'a list" where
  "SliceStable lt xs = foldl (\<lambda>prefix x. insertStable lt x prefix) [] xs"

text \<open>The first loop (lines 238 to 243) and the second (lines 246 to 251).\<close>

fun firstPreferred :: "MusicBrainzRelease list \<Rightarrow> string \<Rightarrow> MusicBrainzRelease option" where
  "firstPreferred [] trackTitle = None"
| "firstPreferred (release # rest) trackTitle =
     (if (Country release = ''XW'' \<or> Country release = ''US'') \<and> Title release \<noteq> trackTitle
      then Some release
      else firstPreferred rest trackTitle)"

fun firstOtherTitle :: "MusicBrainzRelease list \<Rightarrow> string \<Rightarrow> MusicBrainzRelease option" where
  "firstOtherTitle [] trackTitle = None"
| "firstOtherTitle (release # rest) trackTitle =
     (if Title release \<noteq> trackTitle then Some release else firstOtherTitle rest trackTitle)"

text \<open>
  \<^verbatim>\<open>GetBestRelease\<close> sorts the slice it is given in place, so the model returns the
  contents of that slice after the call together with the result. The result is a
  pointer in Go (\<^verbatim>\<open>nil\<close> on the empty slice); its callers only read through it, so
  it is an optional release here.
\<close>

definition GetBestRelease ::
  "MusicBrainzRelease list \<Rightarrow> string \<Rightarrow> MusicBrainzRelease list \<times> MusicBrainzRelease option" where
  "GetBestRelease releases trackTitle =
     (if length releases = 0 then (releases, None)
      else if length releases = 1 then (releases, Some (releases ! 0))
      else
        let releases' = SliceStable releaseLess releases
        in case firstPreferred releases' trackTitle of
             Some release \<Rightarrow> (releases', Some release)
           | None \<Rightarrow>
               (case firstOtherTitle releases' trackTitle of
                  Some release \<Rightarrow> (releases', Some release)
                | None \<Rightarrow> (releases', Some (releases' ! 0))))"

text \<open>
  The selection as section 4.4 of the specification words it, for comparison with
  \<^const>\<open>GetBestRelease\<close>: a stable sort that puts the releases whose date has at
  least four bytes first and breaks ties by date, then title, then id (the key
  below, ordered lexicographically, with \<^term>\<open>False < True\<close> on the first
  component), then the three scans of the sorted sequence.
\<close>

definition releaseKey :: "MusicBrainzRelease \<Rightarrow> bool \<times> string \<times> string \<times> string" where
  "releaseKey r = (\<not> length (Date r) \<ge> 4, Date r, Title r, ID r)"

definition selectBestRelease_reference ::
  "MusicBrainzRelease list \<Rightarrow> string \<Rightarrow> MusicBrainzRelease option" where
  "selectBestRelease_reference releases recordingTitle =
     (let ordered = sort_key releaseKey releases
      in case find (\<lambda>r. Title r \<noteq> recordingTitle \<and> (Country r = ''XW'' \<or> Country r = ''US''))
                ordered of
           Some r \<Rightarrow> Some r
         | None \<Rightarrow>
             (case find (\<lambda>r. Title r \<noteq> recordingTitle) ordered of
                Some r \<Rightarrow> Some r
              | None \<Rightarrow> (case ordered of [] \<Rightarrow> None | r # _ \<Rightarrow> Some r)))"

section \<open>The cache key\<close>

text \<open>
  \<^verbatim>\<open>url.QueryEscape\<close> belongs to Go's standard library (\<^verbatim>\<open>net/url\<close>, mode
  \<^verbatim>\<open>encodeQueryComponent\<close>): letters, digits and the four marks \<^verbatim>\<open>-_.~\<close> are
  kept, a space becomes \<^verbatim>\<open>+\<close>, and every other byte \<open>c\<close> becomes \<^verbatim>\<open>%\<close> followed by
  \<^verbatim>\<open>upperhex[c>>4]\<close> and \<^verbatim>\<open>upperhex[c&15]\<close>.
\<close>

definition shouldEscape :: "char \<Rightarrow> bool" where
  "shouldEscape c =
     (if (CHR ''a'' \<le> c \<and> c \<le> CHR ''z'') \<or> (CHR ''A'' \<le> c \<and> c \<le> CHR ''Z'')
           \<or> (CHR ''0'' \<le> c \<and> c \<le> CHR ''9'') then False
      else if c = CHR ''-'' \<or> c = CHR ''_'' \<or> c = CHR ''.'' \<or> c = CHR ''~'' then False
      else True)"

definition upperhex :: string where
  "upperhex = ''0123456789ABCDEF''"

definition escapeByte :: "char \<Rightarrow> string" where
  "escapeByte c =
     (if c = CHR '' '' then ''+''
      else if shouldEscape c
        then [CHR ''%'', upperhex ! (of_char c div 16), upperhex ! (of_char c mod 16)]
      else [c])"

fun QueryEscape :: "string \<Rightarrow> string" where
  "QueryEscape [] = []"
| "QueryEscape (c # s) = escapeByte c @ QueryEscape s"

definition generateCacheKey :: "SearchParams \<Rightarrow> string" where
  "generateCacheKey params =
     ''track='' @ QueryEscape (Track params) @
     ''&artist='' @ QueryEscape (Artist params) @
     ''&release='' @ QueryEscape (Release params)"

section \<open>SearchMusicBrainz\<close>

text \<open>
  \<^verbatim>\<open>MetadataCleaner\<close> is declared in another file of the package; the service is
  verified for every cleaner. Each of its two methods returns a string and a second
  value, the one the call sites of lines 118 and 119 discard with \<^verbatim>\<open>_\<close>. The
  declaration of that value is not in this file; it is taken to be an error report,
  as Go's convention for a last result has it (\<^term>\<open>None\<close> when there is nothing to
  report, a message otherwise). Nothing below depends on what the value means.
\<close>

record MetadataCleaner =
  CleanRecording :: "string \<Rightarrow> string \<times> string option"
  CleanArtist :: "string \<Rightarrow> string \<times> string option"

text \<open>
  A slice of recordings is a reference to a backing array: an address into the
  \<open>heap\<close> of the state below. The cache entry holds such a reference, and so does
  the value \<^verbatim>\<open>SearchMusicBrainz\<close> returns. Times are readings of one clock, as
  integers; \<^verbatim>\<open>Before\<close> is \<open><\<close> and \<^verbatim>\<open>Add\<close> is \<open>+\<close>.
\<close>

type_synonym addr = nat

record cacheEntry =
  recordings :: addr
  expiresAt :: int

text \<open>
  The service, with what its collaborators have done so far: \<open>limiterWaits\<close>
  counts the calls of \<^verbatim>\<open>s.limiter.Wait\<close>, \<open>requestsSent\<close> lists the endpoints of
  the requests handed to \<^verbatim>\<open>s.httpClient.Do\<close>, \<open>heap\<close> holds the backing arrays of
  the recordings slices and \<open>nextAddr\<close> is the next free address.
\<close>

record MusicBrainzService =
  searchCache :: "string \<rightharpoonup> cacheEntry"
  cacheTTL :: int
  cleaner :: MetadataCleaner
  limiterWaits :: nat
  requestsSent :: "string list"
  heap :: "addr \<Rightarrow> MusicBrainzRecording list"
  nextAddr :: addr

text \<open>
  What the outside world answers during one call: the two readings of the clock
  (lines 122 and 191), the outcome of the limiter's \<^verbatim>\<open>Wait\<close> (with \<^verbatim>\<open>ctx.Err()\<close>
  set or not when it fails), whether \<^verbatim>\<open>http.NewRequestWithContext\<close> succeeds, and
  what \<^verbatim>\<open>httpClient.Do\<close> gives for an endpoint: an error (with \<^verbatim>\<open>ctx.Err()\<close> set or
  not) or a response, made of a status code and what decoding its body yields.
\<close>

datatype limiter_outcome = Admitted | WaitCancelled | WaitError

datatype body_outcome = DecodeError | Decoded "MusicBrainzRecording list"

datatype http_outcome = DoCancelled | DoError | Response int body_outcome

record env =
  timeNow :: int
  timeNowAtStore :: int
  limiterWait :: limiter_outcome
  newRequestOK :: bool
  clientDo :: "string \<Rightarrow> http_outcome"

text \<open>The errors \<^verbatim>\<open>SearchMusicBrainz\<close> returns, one per \<^verbatim>\<open>fmt.Errorf\<close> of the source.\<close>

datatype search_error =
    NoSearchParameter
  | CancelledDuringWait
  | RateLimiterError
  | CreateRequestFailed
  | ContextErrorDuringRequest
  | ExecuteRequestFailed string
  | UnexpectedStatus string int
  | DecodeFailed string

text \<open>Lines 117 to 119: the track and the artist are cleaned, the release is not.\<close>

definition cleanParams :: "MetadataCleaner \<Rightarrow> SearchParams \<Rightarrow> SearchParams" where
  "cleanParams c params =
     (let params = params\<lparr>Track := fst (CleanRecording c (Track params))\<rparr>;
          params = params\<lparr>Artist := fst (CleanArtist c (Artist params))\<rparr>
      in params)"

fun Join :: "string list \<Rightarrow> string \<Rightarrow> string" where
  "Join [] sep = []"
| "Join [x] sep = x"
| "Join (x # y # ys) sep = x @ sep @ Join (y # ys) sep"

text \<open>Lines 142 to 153: the query and the endpoint (\<open>CHR 0x22\<close> is the double quote).\<close>

definition quoted :: "string \<Rightarrow> string \<Rightarrow> string" where
  "quoted field v = field @ '':'' @ [CHR 0x22] @ v @ [CHR 0x22]"

definition buildQuery :: "SearchParams \<Rightarrow> string" where
  "buildQuery params =
     (let queryParts = [];
          queryParts = (if Track params \<noteq> [] then queryParts @ [quoted ''recording'' (Track params)]
                        else queryParts);
          queryParts = (if Artist params \<noteq> [] then queryParts @ [quoted ''artist'' (Artist params)]
                        else queryParts);
          queryParts = (if Release params \<noteq> [] then queryParts @ [quoted ''release'' (Release params)]
                        else queryParts)
      in Join queryParts '' AND '')"

definition buildEndpoint :: "SearchParams \<Rightarrow> string" where
  "buildEndpoint params =
     ''https://musicbrainz.org/ws/2/recording?query='' @ QueryEscape (buildQuery params) @
     ''&fmt=json&inc=artists+releases+isrcs''"

text \<open>
  Lines 141 to 197, the path taken on a miss or an expired entry. \<open>params\<close> are the
  cleaned parameters and \<open>cacheKey\<close> their key.
\<close>

definition fetchAndCache ::
  "env \<Rightarrow> MusicBrainzService \<Rightarrow> SearchParams \<Rightarrow> string
     \<Rightarrow> (search_error + addr) \<times> MusicBrainzService" where
  "fetchAndCache e s params cacheKey =
     (let endpoint = buildEndpoint params;
          s = s\<lparr>limiterWaits := limiterWaits s + 1\<rparr>
      in case limiterWait e of
           WaitCancelled \<Rightarrow> (Inl CancelledDuringWait, s)
         | WaitError \<Rightarrow> (Inl RateLimiterError, s)
         | Admitted \<Rightarrow>
             if \<not> newRequestOK e then (Inl CreateRequestFailed, s)
             else
               let s = s\<lparr>requestsSent := requestsSent s @ [endpoint]\<rparr>
               in (case clientDo e endpoint of
                     DoCancelled \<Rightarrow> (Inl ContextErrorDuringRequest, s)
                   | DoError \<Rightarrow> (Inl (ExecuteRequestFailed endpoint), s)
                   | Response status body \<Rightarrow>
                       if status \<noteq> 200 then (Inl (UnexpectedStatus endpoint status), s)
                       else
                         (case body of
                            DecodeError \<Rightarrow> (Inl (DecodeFailed endpoint), s)
                          | Decoded result \<Rightarrow>
                              let a = nextAddr s;
                                  heap' = (heap s)(a := result);
                                  entry = \<lparr>recordings = a,
                                           expiresAt = timeNowAtStore e + cacheTTL s\<rparr>;
                                  searchCache' = (searchCache s)(cacheKey \<mapsto> entry)
                              in (Inr a, s\<lparr>heap := heap', nextAddr := a + 1,
                                            searchCache := searchCache'\<rparr>))))"

definition SearchMusicBrainz ::
  "env \<Rightarrow> MusicBrainzService \<Rightarrow> SearchParams \<Rightarrow> (search_error + addr) \<times> MusicBrainzService" where
  "SearchMusicBrainz e s params =
     (if Track params = [] \<and> Artist params = [] \<and> Release params = []
      then (Inl NoSearchParameter, s)
      else
        let params = cleanParams (cleaner s) params;
            cacheKey = generateCacheKey params;
            now = timeNow e
        in case searchCache s cacheKey of
             Some entry \<Rightarrow>
               if now < expiresAt entry then (Inr (recordings entry), s)
               else fetchAndCache e s params cacheKey
           | None \<Rightarrow> fetchAndCache e s params cacheKey)"

section \<open>HydrateTrack\<close>

text \<open>
  Modelled from the spec: \<^verbatim>\<open>models.Track\<close> and \<^verbatim>\<open>models.Artist\<close> are declared in
  another package of the repository. Their fields are the ones \<^verbatim>\<open>HydrateTrack\<close>
  reads and writes, with the types of the values it stores in them; the fields it
  only passes through are given plain types.
\<close>

record models_Artist =
  Artist_Name :: string
  Artist_ID :: string
  Artist_MBID :: string

record models_Track =
  HasStamped :: bool
  PlayID :: int
  Name :: string
  URL :: string
  ServiceBaseUrl :: string
  RecordingMBID :: string
  Album :: string
  ReleaseMBID :: string
  ISRC :: string
  Timestamp :: int
  ProgressMs :: int
  DurationMs :: int
  Track_Artist :: "models_Artist list"

text \<open>
  The outcomes of \<^verbatim>\<open>HydrateTrack\<close> that are not a track: the two errors it returns
  and the two run-time panics it can raise (an index out of range, a \<^verbatim>\<open>nil\<close>
  pointer dereference).
\<close>

datatype hydrate_error =
    SearchFailed search_error
  | NoResultsFound
  | PanicIndexOutOfRange
  | PanicNilDereference

text \<open>
  \<^verbatim>\<open>firstResult := res[0]\<close> copies the recording, and the copy's \<^verbatim>\<open>Releases\<close> slice
  shares its backing array with the recording in \<^verbatim>\<open>res\<close>: what \<^verbatim>\<open>GetBestRelease\<close>
  does to the slice is written back to the heap at the address of \<^verbatim>\<open>res\<close>.
\<close>

definition HydrateTrack ::
  "env \<Rightarrow> MusicBrainzService \<Rightarrow> models_Track \<Rightarrow> (hydrate_error + models_Track) \<times> MusicBrainzService" where
  "HydrateTrack e mb track =
     (let artistArray = map Artist_Name (Track_Artist track);
          params = \<lparr>Track = Name track, Artist = Join artistArray '', '', Release = Album track\<rparr>
      in case SearchMusicBrainz e mb params of
           (Inl err, mb) \<Rightarrow> (Inl (SearchFailed err), mb)
         | (Inr res, mb) \<Rightarrow>
             if length (heap mb res) = 0 then (Inl NoResultsFound, mb)
             else
               let firstResult = heap mb res ! 0;
                   (releases', firstResultAlbum) =
                      GetBestRelease (Releases firstResult) (Recording_Title firstResult);
                   firstResult' = firstResult\<lparr>Releases := releases'\<rparr>;
                   res' = list_update (heap mb res) 0 firstResult';
                   heap' = (heap mb)(res := res');
                   mb = mb\<lparr>heap := heap'\<rparr>
               in (case ISRCs firstResult of
                    [] \<Rightarrow> (Inl PanicIndexOutOfRange, mb)
                  | isrc0 # _ \<Rightarrow>
                      let bestISRC = isrc0;
                          bestISRC = (if length (ISRCs firstResult) = 0 then ISRC track else bestISRC);
                          artists = map (\<lambda>a. \<lparr>Artist_Name = Credit_Name a,
                                               Artist_ID = Credit_Artist_ID a,
                                               Artist_MBID = Credit_Artist_ID a\<rparr>)
                                        (ArtistCredit firstResult)
                      in (case firstResultAlbum of
                           None \<Rightarrow> (Inl PanicNilDereference, mb)
                         | Some album \<Rightarrow>
                             (Inr \<lparr>HasStamped = HasStamped track,
                                   PlayID = PlayID track,
                                   Name = Name track,
                                   URL = URL track,
                                   ServiceBaseUrl = ServiceBaseUrl track,
                                   RecordingMBID = Recording_ID firstResult,
                                   Album = Title album,
                                   ReleaseMBID = ID album,
                                   ISRC = bestISRC,
                                   Timestamp = Timestamp track,
                                   ProgressMs = ProgressMs track,
                                   DurationMs = Length firstResult,
                                   Track_Artist = artists\<rparr>, mb))))"

section \<open>The constructor and sample data\<close>

text \<open>
  \<^verbatim>\<open>NewMusicBrainzService\<close> (lines 81 to 98), for a given cleaner: an empty cache and
  a TTL of one hour, in nanoseconds. Nothing has been allocated, waited for or sent.
\<close>

definition NewMusicBrainzService :: "MetadataCleaner \<Rightarrow> MusicBrainzService" where
  "NewMusicBrainzService c =
     \<lparr>searchCache = Map.empty, cacheTTL = 3600000000000, cleaner = c,
      limiterWaits = 0, requestsSent = [], heap = (\<lambda>_. []), nextAddr = 0\<rparr>"

text \<open>A cleaner that drops exclamation marks and reports an error when it dropped one.\<close>

definition dropBangs :: "string \<Rightarrow> string \<times> string option" where
  "dropBangs x =
     (filter (\<lambda>c. c \<noteq> CHR ''!'') x, if CHR ''!'' \<in> set x then Some ''dropped'' else None)"

definition bangCleaner :: MetadataCleaner where
  "bangCleaner = \<lparr>CleanRecording = dropBangs, CleanArtist = dropBangs\<rparr>"

text \<open>The same cleaning, never reporting an error.\<close>

definition quietCleaner :: MetadataCleaner where
  "quietCleaner =
     \<lparr>CleanRecording = (\<lambda>x. (fst (dropBangs x), None)),
      CleanArtist = (\<lambda>x. (fst (dropBangs x), None))\<rparr>"

text \<open>The two releases of the country-preference scenario of section 8 of the specification.\<close>

definition release_a :: MusicBrainzRelease where
  "release_a = \<lparr>ID = ''a'', Title = ''Y'', Status = ''Official'', Date = ''2005'',
                 Country = ''DE'', Disambiguation = [], TrackCount = 10\<rparr>"

definition release_b :: MusicBrainzRelease where
  "release_b = \<lparr>ID = ''b'', Title = ''Y'', Status = ''Official'', Date = ''1990'',
                 Country = ''US'', Disambiguation = [], TrackCount = 10\<rparr>"

definition sample_credit :: MusicBrainzArtistCredit where
  "sample_credit = \<lparr>Credit_Artist_ID = ''artist-1'', Credit_Artist_Name = ''Band'',
                     Credit_Artist_SortName = ''Band'', Credit_Joinphrase = [],
                     Credit_Name = ''Band''\<rparr>"

definition recording_two :: MusicBrainzRecording where
  "recording_two = \<lparr>Recording_ID = ''rec-1'', Recording_Title = ''X'', Length = 180000,
                     ISRCs = [''USRC17607839''], ArtistCredit = [sample_credit],
                     Releases = [release_a, release_b]\<rparr>"

definition recording_no_isrc :: MusicBrainzRecording where
  "recording_no_isrc = recording_two\<lparr>ISRCs := []\<rparr>"

definition recording_no_release :: MusicBrainzRecording where
  "recording_no_release = recording_two\<lparr>Releases := []\<rparr>"

definition sample_track :: models_Track where
  "sample_track =
     \<lparr>HasStamped = False, PlayID = 7, Name = ''X'', URL = [], ServiceBaseUrl = [],
      RecordingMBID = [], Album = ''Y!'', ReleaseMBID = [], ISRC = ''GBAYE0601498'',
      Timestamp = 0, ProgressMs = 0, DurationMs = 0,
      Track_Artist = [\<lparr>Artist_Name = ''Band'', Artist_ID = [], Artist_MBID = []\<rparr>]\<rparr>"

definition sample_params :: SearchParams where
  "sample_params = \<lparr>Track = ''X'', Artist = ''Band'', Release = ''Y!''\<rparr>"

text \<open>
  A world in which the limiter admits the call and the catalog answers every
  request with status 200 and a body that decodes to the given recordings; the
  clock reads \<open>t\<close> at the cache check.
\<close>

definition answering :: "int \<Rightarrow> MusicBrainzRecording list \<Rightarrow> env" where
  "answering t result =
     \<lparr>timeNow = t, timeNowAtStore = t + 1, limiterWait = Admitted, newRequestOK = True,
      clientDo = (\<lambda>_. Response 200 (Decoded result))\<rparr>"

text \<open>A world in which the catalog answers every request with status 503.\<close>

definition unavailable :: "int \<Rightarrow> env" where
  "unavailable t =
     \<lparr>timeNow = t, timeNowAtStore = t + 1, limiterWait = Admitted, newRequestOK = True,
      clientDo = (\<lambda>_. Response 503 DecodeError)\<rparr>"

text \<open>
  The service after one successful search for \<open>sample_params\<close> at time 0: the
  cache holds one entry, which expires at 3600000000001.
\<close>

definition warm_service :: MusicBrainzService where
  "warm_service =
     snd (SearchMusicBrainz (answering 0 [recording_two]) (NewMusicBrainzService bangCleaner)
            sample_params)"

text \<open>Parameters on which \<^const>\<open>bangCleaner\<close> reports an error, for the track and for the artist.\<close>

definition noisy_params :: SearchParams where
  "noisy_params = \<lparr>Track = ''X!'', Artist = ''Band!'', Release = ''Y''\<rparr>"

text \<open>
  The normalisation as section 4.3 of the specification words it, for comparison
  with \<^const>\<open>cleanParams\<close>: each of the three free-text fields goes through the
  cleaner. The specification does not say which of the cleaner's two methods would
  take the release, so that method is a parameter.
\<close>

definition normalizedParams_spec ::
  "MetadataCleaner \<Rightarrow> (string \<Rightarrow> string \<times> string option) \<Rightarrow> SearchParams \<Rightarrow> SearchParams" where
  "normalizedParams_spec c cleanRelease p =
     \<lparr>Track = fst (CleanRecording c (Track p)), Artist = fst (CleanArtist c (Artist p)),
      Release = fst (cleanRelease (Release p))\<rparr>"

section \<open>Properties of GetBestRelease\<close>

text \<open>
  Claim C9. On the empty list \<^verbatim>\<open>GetBestRelease\<close> returns no release, and on a list
  of one release it returns that release, whatever its fields and whatever the
  recording title; the input is left as it was in both cases.
\<close>

theorem GetBestRelease_empty_and_single:
  "GetBestRelease [] trackTitle = ([], None) \<and>
   GetBestRelease [R] trackTitle = ([R], Some R)"
  by (simp add: GetBestRelease_def)

subsection \<open>The stable sort\<close>

lemma releaseLess_iff_key: "releaseLess a b \<longleftrightarrow> releaseKey a < releaseKey b"
  by (auto simp: releaseLess_def releaseKey_def Let_def less_prod_def less_eq_prod_def)

lemma mset_insertStable: "mset (insertStable lt x ys) = add_mset x (mset ys)"
  by (induction ys) auto

lemma set_insertStable: "set (insertStable lt x ys) = insert x (set ys)"
  by (induction ys) auto

lemma sorted_insertStable:
  fixes f :: "'a \<Rightarrow> 'k::linorder"
  assumes lt: "\<And>x y. lt x y \<longleftrightarrow> f x < f y"
  shows "sorted (map f ys) \<Longrightarrow> sorted (map f (insertStable lt x ys))"
  by (induction ys) (auto simp: lt set_insertStable)

text \<open>
  An element is inserted behind the elements of its own key: among the elements of
  one key, the new one comes last.
\<close>

lemma filter_insertStable:
  fixes f :: "'a \<Rightarrow> 'k::linorder"
  assumes lt: "\<And>x y. lt x y \<longleftrightarrow> f x < f y"
  shows "sorted (map f ys) \<Longrightarrow>
    filter (\<lambda>y. k = f y) (insertStable lt x ys) =
    filter (\<lambda>y. k = f y) ys @ (if k = f x then [x] else [])"
proof (induction ys)
  case Nil
  show ?case by simp
next
  case (Cons y ys)
  show ?case
  proof (cases "lt x y")
    case True
    then have "\<forall>z \<in> set (y # ys). f x < f z"
      using Cons.prems by (auto simp: lt)
    then have "k = f x \<Longrightarrow> filter (\<lambda>y. k = f y) (y # ys) = []"
      by (auto simp: filter_empty_conv)
    then show ?thesis using True by auto
  next
    case False
    then show ?thesis using Cons by auto
  qed
qed

lemma SliceStable_snoc: "SliceStable lt (xs @ [x]) = insertStable lt x (SliceStable lt xs)"
  by (simp add: SliceStable_def)

lemma mset_SliceStable: "mset (SliceStable lt xs) = mset xs"
proof (induction xs rule: rev_induct)
  case Nil
  show ?case by (simp add: SliceStable_def)
next
  case (snoc x xs)
  then show ?case by (simp add: SliceStable_snoc mset_insertStable)
qed

lemma sorted_SliceStable:
  fixes f :: "'a \<Rightarrow> 'k::linorder"
  assumes lt: "\<And>x y. lt x y \<longleftrightarrow> f x < f y"
  shows "sorted (map f (SliceStable lt xs))"
proof (induction xs rule: rev_induct)
  case Nil
  show ?case by (simp add: SliceStable_def)
next
  case (snoc x xs)
  then show ?case by (simp add: SliceStable_snoc sorted_insertStable [of lt f, OF lt])
qed

lemma filter_SliceStable:
  fixes f :: "'a \<Rightarrow> 'k::linorder"
  assumes lt: "\<And>x y. lt x y \<longleftrightarrow> f x < f y"
  shows "filter (\<lambda>y. k = f y) (SliceStable lt xs) = filter (\<lambda>y. k = f y) xs"
proof (induction xs rule: rev_induct)
  case Nil
  show ?case by (simp add: SliceStable_def)
next
  case (snoc x xs)
  have "sorted (map f (SliceStable lt xs))" by (rule sorted_SliceStable [of lt f, OF lt])
  then show ?case using snoc
    by (simp add: SliceStable_snoc filter_insertStable [of lt f, OF lt])
qed

text \<open>
  The insertion sort by a closure that compares keys is the library's stable sort
  by the key. The sorted list with the elements of each key in their original order
  is unique, so every stable sort by such a closure returns it, the merging one
  that Go runs on longer slices too.
\<close>

lemma SliceStable_sort_key:
  fixes f :: "'a \<Rightarrow> 'k::linorder"
  assumes lt: "\<And>x y. lt x y \<longleftrightarrow> f x < f y"
  shows "SliceStable lt xs = sort_key f xs"
proof (rule sym, rule properties_for_sort_key)
  show "mset (SliceStable lt xs) = mset xs" by (rule mset_SliceStable)
  show "sorted (map f (SliceStable lt xs))" by (rule sorted_SliceStable [of lt f, OF lt])
  show "filter (\<lambda>x. f k = f x) (SliceStable lt xs) = filter (\<lambda>x. f k = f x) xs" for k
    by (rule filter_SliceStable [of lt f, OF lt])
qed

lemma SliceStable_releaseLess: "SliceStable releaseLess rs = sort_key releaseKey rs"
  by (rule SliceStable_sort_key) (rule releaseLess_iff_key)

lemma firstPreferred_find:
  "firstPreferred rs t = find (\<lambda>r. Title r \<noteq> t \<and> (Country r = ''XW'' \<or> Country r = ''US'')) rs"
  by (induction rs) auto

lemma firstOtherTitle_find: "firstOtherTitle rs t = find (\<lambda>r. Title r \<noteq> t) rs"
  by (induction rs) auto

text \<open>
  Claim C5. On every list of at least two releases and every recording title,
  \<^verbatim>\<open>GetBestRelease\<close> returns what the reference algorithm of the specification
  returns: the first release of the stably sorted list that has another title and
  country XW or US, else the first that has another title, else the first.
\<close>

theorem GetBestRelease_matches_reference:
  "2 \<le> length releases \<Longrightarrow>
   snd (GetBestRelease releases recordingTitle) =
   selectBestRelease_reference releases recordingTitle"
proof -
  assume len: "2 \<le> length releases"
  then have "sort_key releaseKey releases \<noteq> []"
    by (metis length_sort list.size(3) not_numeral_le_zero)
  then obtain r rs where "sort_key releaseKey releases = r # rs"
    by (cases "sort_key releaseKey releases") auto
  with len show ?thesis
    by (auto simp: GetBestRelease_def selectBestRelease_reference_def SliceStable_releaseLess
          firstPreferred_find firstOtherTitle_find Let_def split: option.splits)
qed

theorem GetBestRelease_matches_reference_witness:
  "2 \<le> length [release_a, release_b] \<and>
   snd (GetBestRelease [release_a, release_b] ''X'') = Some release_b"
proof -
  have len: "2 \<le> length [release_a, release_b]" by simp
  have "selectBestRelease_reference [release_a, release_b] ''X'' = Some release_b"
    by (simp add: selectBestRelease_reference_def releaseKey_def release_a_def release_b_def)
  with GetBestRelease_matches_reference [OF len, of "''X''"] len show ?thesis by simp
qed

section \<open>Properties of the cache key\<close>


lemma upperhex_inj:
  "i < 16 \<Longrightarrow> j < 16 \<Longrightarrow> upperhex ! i = upperhex ! j \<Longrightarrow> i = j"
proof -
  have "distinct upperhex" and "length upperhex = 16"
    by (simp_all add: upperhex_def)
  then show "i < 16 \<Longrightarrow> j < 16 \<Longrightarrow> upperhex ! i = upperhex ! j \<Longrightarrow> i = j"
    by (simp add: nth_eq_iff_index_eq)
qed

lemma high_nibble_bound: "(of_char c :: nat) div 16 < 16"
  using nat_of_char_less_256 [of c] by (simp add: div_less_iff_less_mult)

lemma upperhex_nth_mem: "i < 16 \<Longrightarrow> upperhex ! i \<in> set upperhex"
  by (simp add: upperhex_def del: set_simps nth_Cons_numeral)

lemma hex_digits_inj:
  assumes "upperhex ! (of_char c div 16) = upperhex ! (of_char d div 16)"
    and "upperhex ! (of_char c mod 16) = upperhex ! (of_char d mod 16)"
  shows "c = d"
proof -
  have c: "(of_char c :: nat) < 256" and d: "(of_char d :: nat) < 256"
    by (rule nat_of_char_less_256)+
  have "(of_char c :: nat) div 16 < 16" "(of_char d :: nat) div 16 < 16"
    by (rule high_nibble_bound)+
  with assms(1) have hi: "(of_char c :: nat) div 16 = of_char d div 16"
    by (rule upperhex_inj [rotated 2])
  have "(of_char c :: nat) mod 16 < 16" "(of_char d :: nat) mod 16 < 16"
    by simp_all
  with assms(2) have lo: "(of_char c :: nat) mod 16 = of_char d mod 16"
    by (rule upperhex_inj [rotated 2])
  from hi lo have "(of_char c :: nat) = of_char d"
    by (metis div_mult_mod_eq)
  then show ?thesis by (simp only: of_char_eq_iff)
qed

lemma not_shouldEscape_plain:
  "\<not> shouldEscape c \<Longrightarrow> c \<noteq> CHR ''+'' \<and> c \<noteq> CHR ''%'' \<and> c \<noteq> CHR ''&'' \<and> c \<noteq> CHR '' ''"
  by (auto simp: shouldEscape_def)


lemma escapeByte_cases:
  obtains (space) "c = CHR '' ''" "escapeByte c = ''+''"
  | (hex) "c \<noteq> CHR '' ''" "shouldEscape c"
      "escapeByte c = [CHR ''%'', upperhex ! (of_char c div 16), upperhex ! (of_char c mod 16)]"
  | (plain) "\<not> shouldEscape c" "escapeByte c = [c]"
  by (cases "c = CHR '' ''"; cases "shouldEscape c")
     (auto simp: escapeByte_def dest: not_shouldEscape_plain)

lemma escapeByte_prefix_free:
  assumes "escapeByte c @ r = escapeByte d @ r'"
  shows "c = d \<and> r = r'"
proof (cases c rule: escapeByte_cases)
  case space
  then show ?thesis using assms
    by (cases d rule: escapeByte_cases) (auto dest: not_shouldEscape_plain)
next
  case hex
  then show ?thesis using assms
    by (cases d rule: escapeByte_cases) (auto dest: not_shouldEscape_plain hex_digits_inj)
next
  case plain
  then show ?thesis using assms
    by (cases d rule: escapeByte_cases) (auto dest: not_shouldEscape_plain)
qed

lemma escapeByte_nonempty: "escapeByte c \<noteq> []"
  by (cases c rule: escapeByte_cases) auto

lemma QueryEscape_inj: "QueryEscape s = QueryEscape t \<Longrightarrow> s = t"
proof (induction s arbitrary: t)
  case Nil
  then show ?case by (cases t) (auto simp: escapeByte_nonempty)
next
  case (Cons c s)
  then show ?case
    by (cases t) (auto simp: escapeByte_nonempty dest: escapeByte_prefix_free)
qed

lemma amp_notin_upperhex: "CHR ''&'' \<notin> set upperhex"
  by (simp add: upperhex_def)

lemma amp_notin_escapeByte: "CHR ''&'' \<notin> set (escapeByte c)"
proof (cases c rule: escapeByte_cases)
  case hex
  have "(of_char c :: nat) div 16 < 16"
    by (rule high_nibble_bound)
  then have "upperhex ! (of_char c div 16) \<in> set upperhex" "upperhex ! (of_char c mod 16) \<in> set upperhex"
    by (simp_all add: upperhex_nth_mem)
  then show ?thesis using hex amp_notin_upperhex by auto
qed (auto dest: not_shouldEscape_plain)

lemma amp_notin_QueryEscape: "CHR ''&'' \<notin> set (QueryEscape s)"
  by (induction s) (simp_all add: amp_notin_escapeByte)

lemma split_at_separator:
  assumes "xs @ c # ys = xs' @ c # ys'" and "c \<notin> set xs" and "c \<notin> set xs'"
  shows "xs = xs' \<and> ys = ys'"
  using assms
proof (induction xs arbitrary: xs')
  case Nil
  then show ?case by (cases xs') auto
next
  case (Cons x xs)
  then show ?case by (cases xs') auto
qed

text \<open>
  Claim C8. The cache key is a function of the three fields it is given (the
  parameters as \<^verbatim>\<open>SearchMusicBrainz\<close> hands them over, after cleaning) and of
  nothing else, and it is injective: two parameter triples have the same key
  exactly when they agree on track, artist and release, whatever bytes the fields
  hold, the separators \<^verbatim>\<open>&\<close> and \<^verbatim>\<open>=\<close> included.
\<close>

theorem generateCacheKey_injective:
  "generateCacheKey p = generateCacheKey q \<longleftrightarrow>
     Track p = Track q \<and> Artist p = Artist q \<and> Release p = Release q"
proof
  assume eq: "generateCacheKey p = generateCacheKey q"
  then have "QueryEscape (Track p) @ CHR ''&'' # (''artist='' @ QueryEscape (Artist p) @ ''&release='' @ QueryEscape (Release p))
     = QueryEscape (Track q) @ CHR ''&'' # (''artist='' @ QueryEscape (Artist q) @ ''&release='' @ QueryEscape (Release q))"
    by (simp add: generateCacheKey_def)
  then have t: "QueryEscape (Track p) = QueryEscape (Track q)"
    and rest: "QueryEscape (Artist p) @ CHR ''&'' # (''release='' @ QueryEscape (Release p))
       = QueryEscape (Artist q) @ CHR ''&'' # (''release='' @ QueryEscape (Release q))"
    using split_at_separator [OF _ amp_notin_QueryEscape amp_notin_QueryEscape] by auto
  from rest have a: "QueryEscape (Artist p) = QueryEscape (Artist q)"
    and r: "QueryEscape (Release p) = QueryEscape (Release q)"
    using split_at_separator [OF _ amp_notin_QueryEscape amp_notin_QueryEscape] by auto
  from t a r show "Track p = Track q \<and> Artist p = Artist q \<and> Release p = Release q"
    by (simp add: QueryEscape_inj)
next
  assume "Track p = Track q \<and> Artist p = Artist q \<and> Release p = Release q"
  then show "generateCacheKey p = generateCacheKey q"
    by (simp add: generateCacheKey_def)
qed

section \<open>Properties of SearchMusicBrainz\<close>

subsection \<open>The fetch path\<close>

lemma fetchAndCache_Inl:
  assumes "fetchAndCache e s q k = (Inl err, s')"
  shows "s' = s\<lparr>limiterWaits := limiterWaits s + 1\<rparr> \<or>
         s' = s\<lparr>limiterWaits := limiterWaits s + 1,
                requestsSent := requestsSent s @ [buildEndpoint q]\<rparr>"
  using assms
  by (auto simp: fetchAndCache_def Let_def
      split: limiter_outcome.splits http_outcome.splits body_outcome.splits if_splits)

lemma fetchAndCache_Inr:
  assumes "fetchAndCache e s q k = (Inr a, s')"
  shows "limiterWait e = Admitted \<and> newRequestOK e \<and>
         (\<exists>result. clientDo e (buildEndpoint q) = Response 200 (Decoded result) \<and>
            a = nextAddr s \<and>
            s' = s\<lparr>limiterWaits := limiterWaits s + 1,
                   requestsSent := requestsSent s @ [buildEndpoint q],
                   heap := (heap s)(nextAddr s := result),
                   nextAddr := nextAddr s + 1,
                   searchCache := (searchCache s)(k \<mapsto>
                      \<lparr>recordings = nextAddr s, expiresAt = timeNowAtStore e + cacheTTL s\<rparr>)\<rparr>)"
  using assms
  by (auto simp: fetchAndCache_def Let_def
      split: limiter_outcome.splits http_outcome.splits body_outcome.splits if_splits)

lemma fetchAndCache_limiter: "limiterWaits (snd (fetchAndCache e s q k)) = limiterWaits s + 1"
  by (auto simp: fetchAndCache_def Let_def
      split: limiter_outcome.splits http_outcome.splits body_outcome.splits if_splits)

lemma fetchAndCache_result_cache_independent:
  "fst (fetchAndCache e (s\<lparr>searchCache := c\<rparr>) q k) = fst (fetchAndCache e s q k)"
  by (auto simp: fetchAndCache_def Let_def
      split: limiter_outcome.splits http_outcome.splits body_outcome.splits if_splits)

lemma SearchMusicBrainz_valid:
  assumes "\<not> (Track p = [] \<and> Artist p = [] \<and> Release p = [])"
  shows "SearchMusicBrainz e s p =
     (let q = cleanParams (cleaner s) p; k = generateCacheKey q
      in case searchCache s k of
           Some entry \<Rightarrow> if timeNow e < expiresAt entry then (Inr (recordings entry), s)
                         else fetchAndCache e s q k
         | None \<Rightarrow> fetchAndCache e s q k)"
  using assms by (auto simp: SearchMusicBrainz_def Let_def)

subsection \<open>The sample service\<close>

lemma sample_key:
  "generateCacheKey (cleanParams bangCleaner sample_params) = ''track=X&artist=Band&release=Y%21''"
  by (simp add: sample_params_def cleanParams_def bangCleaner_def dropBangs_def
      generateCacheKey_def escapeByte_def shouldEscape_def upperhex_def Let_def)

lemma warm_service_eq:
  "warm_service =
     \<lparr>searchCache = [''track=X&artist=Band&release=Y%21'' \<mapsto>
                       \<lparr>recordings = 0, expiresAt = 3600000000001\<rparr>],
      cacheTTL = 3600000000000, cleaner = bangCleaner, limiterWaits = 1,
      requestsSent = [buildEndpoint sample_params],
      heap = (\<lambda>_. [])(0 := [recording_two]), nextAddr = 1\<rparr>"
  by (simp add: warm_service_def SearchMusicBrainz_def fetchAndCache_def answering_def
      NewMusicBrainzService_def sample_params_def cleanParams_def bangCleaner_def dropBangs_def
      generateCacheKey_def escapeByte_def shouldEscape_def upperhex_def Let_def)

lemma sample_params_valid:
  "\<not> (Track sample_params = [] \<and> Artist sample_params = [] \<and> Release sample_params = [])"
  by (simp add: sample_params_def)

lemma warm_service_entry:
  "searchCache warm_service (generateCacheKey (cleanParams (cleaner warm_service) sample_params))
     = Some \<lparr>recordings = 0, expiresAt = 3600000000001\<rparr>"
  by (simp add: warm_service_eq sample_key)

subsection \<open>Cache writes\<close>

text \<open>
  Claim C6. The cache changes only when the fetch succeeds end to end (the limiter
  admits the call, the request is built and executed, the status is 200 and the
  body decodes). Whenever \<^verbatim>\<open>SearchMusicBrainz\<close> returns an error, the cache is, for
  every key, what it was before the call, an expired entry under the computed key
  included; and unless a fresh entry answers the call, any failure of the wait, the
  request, the status check or the decoding makes the call return an error.
\<close>

theorem SearchMusicBrainz_writes_cache_only_on_success:
  assumes run: "SearchMusicBrainz e s p = (r, s')"
  shows "(isl r \<longrightarrow> searchCache s' = searchCache s \<and> heap s' = heap s) \<and>
         (searchCache s' \<noteq> searchCache s \<longrightarrow>
            limiterWait e = Admitted \<and> newRequestOK e \<and>
            (\<exists>result. clientDo e (buildEndpoint (cleanParams (cleaner s) p))
                        = Response 200 (Decoded result))) \<and>
         (\<not> (\<exists>entry. searchCache s (generateCacheKey (cleanParams (cleaner s) p)) = Some entry
                      \<and> timeNow e < expiresAt entry) \<and>
          \<not> (limiterWait e = Admitted \<and> newRequestOK e \<and>
             (\<exists>result. clientDo e (buildEndpoint (cleanParams (cleaner s) p))
                         = Response 200 (Decoded result)))
          \<longrightarrow> isl r)"
proof (cases "Track p = [] \<and> Artist p = [] \<and> Release p = []")
  case True
  with run show ?thesis by (auto simp: SearchMusicBrainz_def)
next
  case False
  let ?q = "cleanParams (cleaner s) p"
  let ?k = "generateCacheKey ?q"
  show ?thesis
  proof (cases "\<exists>entry. searchCache s ?k = Some entry \<and> timeNow e < expiresAt entry")
    case True
    with run False have "r = Inr (recordings (the (searchCache s ?k)))" "s' = s"
      by (auto simp: SearchMusicBrainz_valid Let_def)
    with True show ?thesis by auto
  next
    case nohit: False
    with run False have fetch: "fetchAndCache e s ?q ?k = (r, s')"
      by (auto simp: SearchMusicBrainz_valid Let_def split: option.splits if_splits)
    show ?thesis
    proof (cases r)
      case (Inl err)
      with fetch have "searchCache s' = searchCache s \<and> heap s' = heap s"
        by (auto dest: fetchAndCache_Inl)
      with Inl show ?thesis by auto
    next
      case (Inr a)
      with fetch show ?thesis by (auto dest!: fetchAndCache_Inr)
    qed
  qed
qed

theorem SearchMusicBrainz_writes_cache_only_on_success_witness:
  "isl (fst (SearchMusicBrainz (unavailable 3600000000001) warm_service sample_params)) \<and>
   searchCache (snd (SearchMusicBrainz (unavailable 3600000000001) warm_service sample_params))
     = searchCache warm_service \<and>
   searchCache warm_service ''track=X&artist=Band&release=Y%21''
     = Some \<lparr>recordings = 0, expiresAt = 3600000000001\<rparr>"
proof -
  let ?X = "SearchMusicBrainz (unavailable 3600000000001) warm_service sample_params"
  have run: "?X = (fst ?X, snd ?X)" by simp
  have "?X = fetchAndCache (unavailable 3600000000001) warm_service
               (cleanParams (cleaner warm_service) sample_params)
               (generateCacheKey (cleanParams (cleaner warm_service) sample_params))"
    using warm_service_entry
    by (simp add: SearchMusicBrainz_valid [OF sample_params_valid] Let_def unavailable_def)
  then have err: "isl (fst ?X)"
    by (simp add: fetchAndCache_def unavailable_def Let_def)
  with SearchMusicBrainz_writes_cache_only_on_success [OF run]
  have "searchCache (snd ?X) = searchCache warm_service" by blast
  with err show ?thesis by (simp add: warm_service_eq)
qed

subsection \<open>Cache hits and expiry\<close>

text \<open>
  Claim C7. For valid parameters whose key has a cache entry: while the clock is
  strictly before \<open>expiresAt\<close>, the call returns the entry's recordings and leaves
  the whole state as it was, so the limiter is not consulted and no request is
  sent; once \<open>expiresAt \<le> now\<close>, the call takes the fetch path, consults the
  limiter once, and returns what it would return had the entry been absent.
\<close>

theorem SearchMusicBrainz_hit_and_expiry:
  assumes valid: "\<not> (Track p = [] \<and> Artist p = [] \<and> Release p = [])"
    and entry: "searchCache s (generateCacheKey (cleanParams (cleaner s) p)) = Some entry"
  shows "(timeNow e < expiresAt entry \<longrightarrow>
            SearchMusicBrainz e s p = (Inr (recordings entry), s)) \<and>
         (expiresAt entry \<le> timeNow e \<longrightarrow>
            SearchMusicBrainz e s p =
              fetchAndCache e s (cleanParams (cleaner s) p)
                (generateCacheKey (cleanParams (cleaner s) p)) \<and>
            fst (SearchMusicBrainz e s p) =
              fst (SearchMusicBrainz e
                     (s\<lparr>searchCache :=
                          (searchCache s)(generateCacheKey (cleanParams (cleaner s) p) := None)\<rparr>) p) \<and>
            limiterWaits (snd (SearchMusicBrainz e s p)) = limiterWaits s + 1)"
proof (intro conjI impI)
  assume "timeNow e < expiresAt entry"
  with valid entry show "SearchMusicBrainz e s p = (Inr (recordings entry), s)"
    by (simp add: SearchMusicBrainz_valid Let_def)
next
  assume "expiresAt entry \<le> timeNow e"
  with valid entry show fetch: "SearchMusicBrainz e s p =
      fetchAndCache e s (cleanParams (cleaner s) p) (generateCacheKey (cleanParams (cleaner s) p))"
    by (simp add: SearchMusicBrainz_valid Let_def)
  then show "limiterWaits (snd (SearchMusicBrainz e s p)) = limiterWaits s + 1"
    by (simp add: fetchAndCache_limiter)
  from valid have "SearchMusicBrainz e
        (s\<lparr>searchCache := (searchCache s)(generateCacheKey (cleanParams (cleaner s) p) := None)\<rparr>) p
      = fetchAndCache e
        (s\<lparr>searchCache := (searchCache s)(generateCacheKey (cleanParams (cleaner s) p) := None)\<rparr>)
        (cleanParams (cleaner s) p) (generateCacheKey (cleanParams (cleaner s) p))"
    by (simp add: SearchMusicBrainz_valid Let_def)
  with fetch show "fst (SearchMusicBrainz e s p) =
      fst (SearchMusicBrainz e
        (s\<lparr>searchCache := (searchCache s)(generateCacheKey (cleanParams (cleaner s) p) := None)\<rparr>) p)"
    by (simp add: fetchAndCache_result_cache_independent)
qed

theorem SearchMusicBrainz_hit_and_expiry_witness:
  "SearchMusicBrainz (unavailable 5) warm_service sample_params = (Inr 0, warm_service) \<and>
   limiterWaits (snd (SearchMusicBrainz (unavailable 3600000000001) warm_service sample_params)) = 2"
proof -
  let ?entry = "\<lparr>recordings = 0, expiresAt = 3600000000001\<rparr>"
  have fresh: "timeNow (unavailable 5) < expiresAt ?entry"
    by (simp add: unavailable_def)
  have stale: "expiresAt ?entry \<le> timeNow (unavailable 3600000000001)"
    by (simp add: unavailable_def)
  from SearchMusicBrainz_hit_and_expiry
         [OF sample_params_valid warm_service_entry, of "unavailable 5"] fresh
  have hit: "SearchMusicBrainz (unavailable 5) warm_service sample_params
      = (Inr (recordings ?entry), warm_service)"
    by blast
  from SearchMusicBrainz_hit_and_expiry
         [OF sample_params_valid warm_service_entry, of "unavailable 3600000000001"] stale
  have "limiterWaits (snd (SearchMusicBrainz (unavailable 3600000000001) warm_service sample_params))
      = limiterWaits warm_service + 1"
    by blast
  then have "limiterWaits
      (snd (SearchMusicBrainz (unavailable 3600000000001) warm_service sample_params)) = 2"
    by (simp add: warm_service_eq)
  with hit show ?thesis by simp
qed

subsection \<open>Normalisation\<close>

lemma cleanParams_eq:
  "cleanParams c p = \<lparr>Track = fst (CleanRecording c (Track p)),
                      Artist = fst (CleanArtist c (Artist p)), Release = Release p\<rparr>"
  by (simp add: cleanParams_def Let_def)

text \<open>
  Claim C3, as the code has it. For valid parameters, the key and the query are
  those of the cleaned track, the cleaned artist and the release as given: no cache
  slot but that key's changes, the one request that may be sent is the endpoint
  built from these three values, and a successful call leaves its result under
  that key.
\<close>

theorem SearchMusicBrainz_cleans_track_and_artist_only:
  assumes valid: "\<not> (Track p = [] \<and> Artist p = [] \<and> Release p = [])"
    and run: "SearchMusicBrainz e s p = (r, s')"
    and q: "q = \<lparr>Track = fst (CleanRecording (cleaner s) (Track p)),
                 Artist = fst (CleanArtist (cleaner s) (Artist p)), Release = Release p\<rparr>"
  shows "(\<forall>k. k \<noteq> generateCacheKey q \<longrightarrow> searchCache s' k = searchCache s k) \<and>
         (requestsSent s' = requestsSent s \<or> requestsSent s' = requestsSent s @ [buildEndpoint q]) \<and>
         (\<forall>a. r = Inr a \<longrightarrow>
            (\<exists>entry. searchCache s' (generateCacheKey q) = Some entry \<and> recordings entry = a))"
proof -
  have q': "q = cleanParams (cleaner s) p" by (simp add: q cleanParams_eq)
  show ?thesis
  proof (cases "\<exists>entry. searchCache s (generateCacheKey q) = Some entry \<and> timeNow e < expiresAt entry")
    case True
    with run valid show ?thesis
      by (auto simp: SearchMusicBrainz_valid Let_def q')
  next
    case False
    with run valid have fetch: "fetchAndCache e s q (generateCacheKey q) = (r, s')"
      by (auto simp: SearchMusicBrainz_valid Let_def q' split: option.splits if_splits)
    show ?thesis
    proof (cases r)
      case (Inl err)
      with fetch show ?thesis by (auto dest: fetchAndCache_Inl)
    next
      case (Inr a)
      with fetch show ?thesis by (auto dest!: fetchAndCache_Inr)
    qed
  qed
qed

theorem SearchMusicBrainz_cleans_track_and_artist_only_witness:
  "searchCache warm_service ''track=X&artist=Band&release=Y%21'' \<noteq> None"
proof -
  let ?s = "NewMusicBrainzService bangCleaner"
  let ?e = "answering 0 [recording_two]"
  let ?X = "SearchMusicBrainz ?e ?s sample_params"
  have run: "?X = (fst ?X, snd ?X)" by simp
  have ok: "fst ?X = Inr 0"
    by (simp add: SearchMusicBrainz_def fetchAndCache_def answering_def
      NewMusicBrainzService_def sample_params_def Let_def)
  have q: "\<lparr>Track = ''X'', Artist = ''Band'', Release = ''Y!''\<rparr> =
    \<lparr>Track = fst (CleanRecording (cleaner ?s) (Track sample_params)),
     Artist = fst (CleanArtist (cleaner ?s) (Artist sample_params)),
     Release = Release sample_params\<rparr>"
    by (simp add: NewMusicBrainzService_def bangCleaner_def dropBangs_def sample_params_def)
  from SearchMusicBrainz_cleans_track_and_artist_only [OF sample_params_valid run q] ok
  have "\<exists>entry. searchCache (snd ?X)
          (generateCacheKey \<lparr>Track = ''X'', Artist = ''Band'', Release = ''Y!''\<rparr>) = Some entry"
    by blast
  then show ?thesis
    by (simp add: warm_service_def generateCacheKey_def escapeByte_def shouldEscape_def upperhex_def)
qed

text \<open>
  Claim C3 as stated fails. After a search for track \<open>X\<close>, artist \<open>Band\<close> and release
  \<open>Y!\<close> with a cleaner that drops exclamation marks, no entry sits under the key of
  the fully cleaned parameters, whichever method would clean the release; the
  entry sits under the key of the release as given, and the request sent carries
  the release as given, which is not the request of the cleaned release.
\<close>

theorem SearchMusicBrainz_release_not_cleaned:
  "searchCache warm_service
     (generateCacheKey (normalizedParams_spec bangCleaner (CleanRecording bangCleaner) sample_params))
     = None \<and>
   searchCache warm_service
     (generateCacheKey (normalizedParams_spec bangCleaner (CleanArtist bangCleaner) sample_params))
     = None \<and>
   searchCache warm_service (generateCacheKey sample_params) \<noteq> None \<and>
   requestsSent warm_service = [buildEndpoint sample_params] \<and>
   buildEndpoint sample_params \<noteq>
     buildEndpoint (normalizedParams_spec bangCleaner (CleanRecording bangCleaner) sample_params)"
  by (simp add: warm_service_eq normalizedParams_spec_def bangCleaner_def dropBangs_def
      sample_params_def generateCacheKey_def escapeByte_def shouldEscape_def upperhex_def
      buildEndpoint_def buildQuery_def quoted_def Let_def)

subsection \<open>Errors of the cleaner\<close>

lemma fetchAndCache_cleaner:
  "fetchAndCache e (s\<lparr>cleaner := c\<rparr>) q k =
     (fst (fetchAndCache e s q k), (snd (fetchAndCache e s q k))\<lparr>cleaner := c\<rparr>)"
  by (auto simp: fetchAndCache_def Let_def
      split: limiter_outcome.splits http_outcome.splits body_outcome.splits if_splits)

lemma SearchMusicBrainz_cleaner_strings_only:
  assumes "fst (CleanRecording c (Track p)) = fst (CleanRecording c' (Track p))"
    and "fst (CleanArtist c (Artist p)) = fst (CleanArtist c' (Artist p))"
  shows "fst (SearchMusicBrainz e (s\<lparr>cleaner := c\<rparr>) p)
           = fst (SearchMusicBrainz e (s\<lparr>cleaner := c'\<rparr>) p) \<and>
         (snd (SearchMusicBrainz e (s\<lparr>cleaner := c\<rparr>) p))\<lparr>cleaner := c'\<rparr>
           = snd (SearchMusicBrainz e (s\<lparr>cleaner := c'\<rparr>) p)"
proof -
  from assms have "cleanParams c p = cleanParams c' p"
    by (simp add: cleanParams_eq)
  then show ?thesis
    by (auto simp: SearchMusicBrainz_def Let_def fetchAndCache_cleaner split: option.splits)
qed

lemma fetchAndCache_request:
  assumes "limiterWait e = Admitted" "newRequestOK e"
  shows "requestsSent (snd (fetchAndCache e s q k)) = requestsSent s @ [buildEndpoint q]"
  using assms
  by (auto simp: fetchAndCache_def Let_def split: http_outcome.splits body_outcome.splits)

lemma fetchAndCache_success:
  assumes "limiterWait e = Admitted" "newRequestOK e"
    and "clientDo e (buildEndpoint q) = Response 200 (Decoded result)"
  shows "fetchAndCache e s q k =
     (Inr (nextAddr s),
      s\<lparr>limiterWaits := limiterWaits s + 1,
        requestsSent := requestsSent s @ [buildEndpoint q],
        heap := (heap s)(nextAddr s := result),
        nextAddr := nextAddr s + 1,
        searchCache := (searchCache s)(k \<mapsto>
           \<lparr>recordings = nextAddr s, expiresAt = timeNowAtStore e + cacheTTL s\<rparr>)\<rparr>)"
  using assms by (simp add: fetchAndCache_def Let_def)

lemma noisy_key:
  "generateCacheKey \<lparr>Track = ''X'', Artist = ''Band'', Release = ''Y''\<rparr>
     = ''track=X&artist=Band&release=Y''"
  by (simp add: generateCacheKey_def escapeByte_def shouldEscape_def upperhex_def)

text \<open>
  Claim C10. Whatever the two methods of the cleaner report beside their strings,
  \<^verbatim>\<open>SearchMusicBrainz\<close> goes on with the strings: for valid parameters it looks
  up the key of the returned track and artist (and the release as given) and
  answers from a fresh entry there; failing that, the request it sends is the one
  built from the returned strings, and when the fetch succeeds the call succeeds
  and the result is stored under that key. Two cleaners that return the same
  strings, whatever errors either reports with them, give the same result and the
  same final state (the cleaner field apart): the caller cannot tell that cleaning
  failed.
\<close>

theorem SearchMusicBrainz_ignores_cleaner_errors:
  assumes rec: "fst (CleanRecording c (Track p)) = fst (CleanRecording c' (Track p))"
    and art: "fst (CleanArtist c (Artist p)) = fst (CleanArtist c' (Artist p))"
    and q: "q = \<lparr>Track = fst (CleanRecording c (Track p)),
                 Artist = fst (CleanArtist c (Artist p)), Release = Release p\<rparr>"
    and run: "SearchMusicBrainz e (s\<lparr>cleaner := c\<rparr>) p = (r, s')"
  shows "fst (SearchMusicBrainz e (s\<lparr>cleaner := c\<rparr>) p)
           = fst (SearchMusicBrainz e (s\<lparr>cleaner := c'\<rparr>) p) \<and>
         (snd (SearchMusicBrainz e (s\<lparr>cleaner := c\<rparr>) p))\<lparr>cleaner := c'\<rparr>
           = snd (SearchMusicBrainz e (s\<lparr>cleaner := c'\<rparr>) p) \<and>
         (\<not> (Track p = [] \<and> Artist p = [] \<and> Release p = []) \<longrightarrow>
            (\<forall>entry. searchCache s (generateCacheKey q) = Some entry \<and> timeNow e < expiresAt entry
               \<longrightarrow> r = Inr (recordings entry) \<and> s' = s\<lparr>cleaner := c\<rparr>) \<and>
            (\<not> (\<exists>entry. searchCache s (generateCacheKey q) = Some entry
                          \<and> timeNow e < expiresAt entry)
               \<and> limiterWait e = Admitted \<and> newRequestOK e
               \<longrightarrow> requestsSent s' = requestsSent s @ [buildEndpoint q]) \<and>
            (\<forall>result. \<not> (\<exists>entry. searchCache s (generateCacheKey q) = Some entry
                          \<and> timeNow e < expiresAt entry)
               \<and> limiterWait e = Admitted \<and> newRequestOK e
               \<and> clientDo e (buildEndpoint q) = Response 200 (Decoded result)
               \<longrightarrow> r = Inr (nextAddr s) \<and> heap s' (nextAddr s) = result \<and>
                   searchCache s' = (searchCache s)(generateCacheKey q \<mapsto>
                     \<lparr>recordings = nextAddr s, expiresAt = timeNowAtStore e + cacheTTL s\<rparr>)))"
proof (intro conjI impI allI)
  show "fst (SearchMusicBrainz e (s\<lparr>cleaner := c\<rparr>) p)
           = fst (SearchMusicBrainz e (s\<lparr>cleaner := c'\<rparr>) p)"
    using SearchMusicBrainz_cleaner_strings_only [OF rec art] by blast
  show "(snd (SearchMusicBrainz e (s\<lparr>cleaner := c\<rparr>) p))\<lparr>cleaner := c'\<rparr>
           = snd (SearchMusicBrainz e (s\<lparr>cleaner := c'\<rparr>) p)"
    using SearchMusicBrainz_cleaner_strings_only [OF rec art] by blast
next
  fix entry
  assume valid: "\<not> (Track p = [] \<and> Artist p = [] \<and> Release p = [])"
    and "searchCache s (generateCacheKey q) = Some entry \<and> timeNow e < expiresAt entry"
  with run show "r = Inr (recordings entry)" "s' = s\<lparr>cleaner := c\<rparr>"
    by (simp_all add: SearchMusicBrainz_valid Let_def cleanParams_eq q)
next
  assume valid: "\<not> (Track p = [] \<and> Artist p = [] \<and> Release p = [])"
    and miss: "\<not> (\<exists>entry. searchCache s (generateCacheKey q) = Some entry
                          \<and> timeNow e < expiresAt entry)
               \<and> limiterWait e = Admitted \<and> newRequestOK e"
  with run have "fetchAndCache e (s\<lparr>cleaner := c\<rparr>) q (generateCacheKey q) = (r, s')"
    by (auto simp: SearchMusicBrainz_valid Let_def cleanParams_eq q split: option.splits if_splits)
  with miss show "requestsSent s' = requestsSent s @ [buildEndpoint q]"
    using fetchAndCache_request [of e "s\<lparr>cleaner := c\<rparr>" q "generateCacheKey q"] by simp
next
  fix result
  assume valid: "\<not> (Track p = [] \<and> Artist p = [] \<and> Release p = [])"
    and ok: "\<not> (\<exists>entry. searchCache s (generateCacheKey q) = Some entry
                          \<and> timeNow e < expiresAt entry)
               \<and> limiterWait e = Admitted \<and> newRequestOK e
               \<and> clientDo e (buildEndpoint q) = Response 200 (Decoded result)"
  with run have "fetchAndCache e (s\<lparr>cleaner := c\<rparr>) q (generateCacheKey q) = (r, s')"
    by (auto simp: SearchMusicBrainz_valid Let_def cleanParams_eq q split: option.splits if_splits)
  with ok show "r = Inr (nextAddr s)" "heap s' (nextAddr s) = result"
    "searchCache s' = (searchCache s)(generateCacheKey q \<mapsto>
        \<lparr>recordings = nextAddr s, expiresAt = timeNowAtStore e + cacheTTL s\<rparr>)"
    using fetchAndCache_success [of e q result "s\<lparr>cleaner := c\<rparr>" "generateCacheKey q"]
    by auto
qed

theorem SearchMusicBrainz_ignores_cleaner_errors_witness:
  "CleanRecording bangCleaner (Track noisy_params) = (''X'', Some ''dropped'') \<and>
   CleanArtist bangCleaner (Artist noisy_params) = (''Band'', Some ''dropped'') \<and>
   fst (SearchMusicBrainz (answering 0 [recording_two]) (NewMusicBrainzService bangCleaner)
          noisy_params) = Inr 0 \<and>
   requestsSent (snd (SearchMusicBrainz (answering 0 [recording_two])
          (NewMusicBrainzService bangCleaner) noisy_params))
     = [buildEndpoint \<lparr>Track = ''X'', Artist = ''Band'', Release = ''Y''\<rparr>] \<and>
   searchCache (snd (SearchMusicBrainz (answering 0 [recording_two])
          (NewMusicBrainzService bangCleaner) noisy_params))
     = [''track=X&artist=Band&release=Y'' \<mapsto> \<lparr>recordings = 0, expiresAt = 3600000000001\<rparr>] \<and>
   fst (SearchMusicBrainz (answering 0 [recording_two]) (NewMusicBrainzService quietCleaner)
          noisy_params) = Inr 0"
proof -
  let ?e = "answering 0 [recording_two]"
  let ?s = "NewMusicBrainzService bangCleaner"
  let ?q = "\<lparr>Track = ''X'', Artist = ''Band'', Release = ''Y''\<rparr>"
  let ?X = "SearchMusicBrainz ?e (?s\<lparr>cleaner := bangCleaner\<rparr>) noisy_params"
  have s: "?s\<lparr>cleaner := bangCleaner\<rparr> = ?s" "?s\<lparr>cleaner := quietCleaner\<rparr> = NewMusicBrainzService quietCleaner"
    by (simp_all add: NewMusicBrainzService_def)
  have cr: "CleanRecording bangCleaner (Track noisy_params) = (''X'', Some ''dropped'')"
    and ca: "CleanArtist bangCleaner (Artist noisy_params) = (''Band'', Some ''dropped'')"
    by (simp_all add: bangCleaner_def dropBangs_def noisy_params_def)
  have rec: "fst (CleanRecording bangCleaner (Track noisy_params))
      = fst (CleanRecording quietCleaner (Track noisy_params))"
    and art: "fst (CleanArtist bangCleaner (Artist noisy_params))
      = fst (CleanArtist quietCleaner (Artist noisy_params))"
    by (simp_all add: bangCleaner_def quietCleaner_def)
  have q: "?q = \<lparr>Track = fst (CleanRecording bangCleaner (Track noisy_params)),
                  Artist = fst (CleanArtist bangCleaner (Artist noisy_params)),
                  Release = Release noisy_params\<rparr>"
    by (simp add: cr ca) (simp add: noisy_params_def)
  have run: "?X = (fst ?X, snd ?X)" by simp
  have valid: "\<not> (Track noisy_params = [] \<and> Artist noisy_params = [] \<and> Release noisy_params = [])"
    by (simp add: noisy_params_def)
  have miss: "\<not> (\<exists>entry. searchCache ?s (generateCacheKey ?q) = Some entry
                          \<and> timeNow ?e < expiresAt entry)"
    by (simp add: NewMusicBrainzService_def)
  have env: "limiterWait ?e = Admitted" "newRequestOK ?e"
    "clientDo ?e (buildEndpoint ?q) = Response 200 (Decoded [recording_two])"
    "timeNowAtStore ?e = 1"
    by (simp_all add: answering_def)
  have st: "nextAddr ?s = 0" "requestsSent ?s = []" "searchCache ?s = Map.empty" "cacheTTL ?s = 3600000000000"
    by (simp_all add: NewMusicBrainzService_def)
  note inst = SearchMusicBrainz_ignores_cleaner_errors [OF rec art q run]
  from inst valid miss env have "requestsSent (snd ?X) = requestsSent ?s @ [buildEndpoint ?q]"
    by blast
  moreover from inst valid miss env
  have "fst ?X = Inr (nextAddr ?s) \<and>
        searchCache (snd ?X) = (searchCache ?s)(generateCacheKey ?q \<mapsto>
           \<lparr>recordings = nextAddr ?s, expiresAt = timeNowAtStore ?e + cacheTTL ?s\<rparr>)"
    by blast
  moreover from inst have "fst ?X = fst (SearchMusicBrainz ?e (?s\<lparr>cleaner := quietCleaner\<rparr>) noisy_params)"
    by blast
  ultimately show ?thesis
    using cr ca by (simp add: s st env noisy_key)
qed

section \<open>What GetBestRelease does to its input\<close>

lemma GetBestRelease_input_after: "fst (GetBestRelease releases t) = sort_key releaseKey releases"
proof (cases releases)
  case Nil
  then show ?thesis by (simp add: GetBestRelease_def)
next
  case (Cons r rs)
  show ?thesis
  proof (cases rs)
    case Nil
    with Cons show ?thesis by (simp add: GetBestRelease_def)
  next
    case (Cons r' rs')
    with \<open>releases = r # rs\<close> show ?thesis
      by (simp add: GetBestRelease_def SliceStable_releaseLess Let_def split: option.splits)
  qed
qed

lemma GetBestRelease_None_iff: "snd (GetBestRelease releases t) = None \<longleftrightarrow> releases = []"
  by (auto simp: GetBestRelease_def Let_def split: option.splits)

section \<open>Properties of HydrateTrack\<close>

lemma sample_track_params:
  "\<lparr>Track = Name sample_track, Artist = Join (map Artist_Name (Track_Artist sample_track)) '', '',
    Release = Album sample_track\<rparr> = sample_params"
  by (simp add: sample_track_def sample_params_def)

lemma fresh_search:
  "SearchMusicBrainz (answering 0 result) (NewMusicBrainzService bangCleaner) sample_params =
     (Inr 0, \<lparr>searchCache = [''track=X&artist=Band&release=Y%21'' \<mapsto>
                       \<lparr>recordings = 0, expiresAt = 3600000000001\<rparr>],
      cacheTTL = 3600000000000, cleaner = bangCleaner, limiterWaits = 1,
      requestsSent = [buildEndpoint sample_params],
      heap = (\<lambda>_. [])(0 := result), nextAddr = 1\<rparr>)"
  by (simp add: SearchMusicBrainz_def fetchAndCache_def answering_def
      NewMusicBrainzService_def sample_params_def cleanParams_def bangCleaner_def dropBangs_def
      generateCacheKey_def escapeByte_def shouldEscape_def upperhex_def Let_def)

subsection \<open>The three outcomes after candidate selection\<close>

text \<open>
  Once the search has succeeded with at least one recording: an empty ISRC list
  ends in the index panic of line 284, whatever the releases are; a non-empty ISRC
  list with no release ends in the \<^verbatim>\<open>nil\<close> dereference of line 307; and a non-empty
  ISRC list with at least one release gives a track that carries the first ISRC.
\<close>

lemma HydrateTrack_empty_ISRCs:
  assumes search: "SearchMusicBrainz e mb
       \<lparr>Track = Name track, Artist = Join (map Artist_Name (Track_Artist track)) '', '',
        Release = Album track\<rparr> = (Inr res, mb1)"
    and first: "heap mb1 res = first # rest"
    and isrcs: "ISRCs first = []"
  shows "fst (HydrateTrack e mb track) = Inl PanicIndexOutOfRange"
  using assms by (simp add: HydrateTrack_def Let_def split_beta)

lemma HydrateTrack_no_release:
  assumes search: "SearchMusicBrainz e mb
       \<lparr>Track = Name track, Artist = Join (map Artist_Name (Track_Artist track)) '', '',
        Release = Album track\<rparr> = (Inr res, mb1)"
    and first: "heap mb1 res = first # rest"
    and isrcs: "ISRCs first = isrc # others"
    and releases: "Releases first = []"
  shows "fst (HydrateTrack e mb track) = Inl PanicNilDereference"
  using assms by (simp add: HydrateTrack_def Let_def split_beta GetBestRelease_def)

lemma HydrateTrack_first_ISRC:
  assumes search: "SearchMusicBrainz e mb
       \<lparr>Track = Name track, Artist = Join (map Artist_Name (Track_Artist track)) '', '',
        Release = Album track\<rparr> = (Inr res, mb1)"
    and first: "heap mb1 res = first # rest"
    and isrcs: "ISRCs first = isrc # others"
    and releases: "Releases first \<noteq> []"
  shows "\<exists>enriched. fst (HydrateTrack e mb track) = Inr enriched \<and> ISRC enriched = isrc"
proof -
  from releases obtain album where
    "snd (GetBestRelease (Releases first) (Recording_Title first)) = Some album"
    using GetBestRelease_None_iff [of "Releases first" "Recording_Title first"] by auto
  with search first isrcs show ?thesis
    by (simp add: HydrateTrack_def Let_def split_beta)
qed

text \<open>
  Claim C1 fails on the code. The search succeeds and its first recording has two
  releases and no ISRC: \<^verbatim>\<open>HydrateTrack\<close> does not return the track with the ISRC it
  came with, it panics on \<^verbatim>\<open>firstResult.ISRCs[0]\<close> (line 284), which the source
  evaluates before the length check of line 286.
\<close>

theorem HydrateTrack_sample_without_ISRC_panics:
  "fst (HydrateTrack (answering 0 [recording_no_isrc]) (NewMusicBrainzService bangCleaner)
          sample_track) = Inl PanicIndexOutOfRange"
  by (simp add: HydrateTrack_def sample_track_params fresh_search Let_def split_beta
       recording_no_isrc_def recording_two_def)

text \<open>
  Claim C2 fails on the code. The search succeeds and its first recording has an
  ISRC and no release: \<^verbatim>\<open>GetBestRelease\<close> returns \<^verbatim>\<open>nil\<close> and \<^verbatim>\<open>HydrateTrack\<close> does
  not return an error, it panics on \<^verbatim>\<open>firstResultAlbum.Title\<close> (line 307).
\<close>

theorem HydrateTrack_sample_without_release_panics:
  "fst (HydrateTrack (answering 0 [recording_no_release]) (NewMusicBrainzService bangCleaner)
          sample_track) = Inl PanicNilDereference"
  by (simp add: HydrateTrack_def sample_track_params fresh_search Let_def split_beta
       recording_no_release_def recording_two_def GetBestRelease_def)

subsection \<open>The cached slice is shared\<close>

lemma HydrateTrack_heap:
  assumes search: "SearchMusicBrainz e mb
       \<lparr>Track = Name track, Artist = Join (map Artist_Name (Track_Artist track)) '', '',
        Release = Album track\<rparr> = (Inr res, mb1)"
    and first: "heap mb1 res = first # rest"
  shows "snd (HydrateTrack e mb track) =
     mb1\<lparr>heap := (heap mb1)(res := first\<lparr>Releases := sort_key releaseKey (Releases first)\<rparr> # rest)\<rparr>"
  using assms
  by (simp add: HydrateTrack_def Let_def split_beta GetBestRelease_input_after
      split: list.splits option.splits)

lemma SearchMusicBrainz_returns_cached_slice:
  assumes "SearchMusicBrainz e s p = (Inr res, s')"
  shows "\<exists>entry. searchCache s' (generateCacheKey (cleanParams (cleaner s) p)) = Some entry \<and>
           recordings entry = res"
proof (cases "Track p = [] \<and> Artist p = [] \<and> Release p = []")
  case True
  with assms show ?thesis by (simp add: SearchMusicBrainz_def)
next
  case False
  show ?thesis
  proof (cases "\<exists>entry. searchCache s (generateCacheKey (cleanParams (cleaner s) p)) = Some entry
                          \<and> timeNow e < expiresAt entry")
    case True
    with assms False show ?thesis
      by (auto simp: SearchMusicBrainz_valid Let_def)
  next
    case nohit: False
    with assms False have "fetchAndCache e s (cleanParams (cleaner s) p)
        (generateCacheKey (cleanParams (cleaner s) p)) = (Inr res, s')"
      by (auto simp: SearchMusicBrainz_valid Let_def split: option.splits if_splits)
    then show ?thesis by (auto dest!: fetchAndCache_Inr)
  qed
qed

lemma warm_service_hit:
  "SearchMusicBrainz (unavailable 5) warm_service sample_params = (Inr 0, warm_service)"
  using warm_service_entry
  by (simp add: SearchMusicBrainz_valid [OF sample_params_valid] Let_def unavailable_def)

lemma warm_service_heap: "heap warm_service 0 = recording_two # []"
  by (simp add: warm_service_eq)

lemma sample_releases_sorted: "sort_key releaseKey [release_a, release_b] = [release_b, release_a]"
  by (simp add: releaseKey_def release_a_def release_b_def)

text \<open>
  Claim C4, as the code has it. \<^verbatim>\<open>GetBestRelease\<close> sorts the slice it is given in
  place: after the call the slice holds the same releases in the stable order of
  the key (so it is unchanged exactly when it was in that order already, as every
  list of at most one release is). A successful search returns the very slice that
  the cache entry under the computed key holds, and the call of \<^verbatim>\<open>GetBestRelease\<close>
  in \<^verbatim>\<open>HydrateTrack\<close> sorts, in that cached slice, the releases of the first
  recording; the cache mapping itself is not changed by it.
\<close>

theorem GetBestRelease_sorts_the_cached_slice:
  assumes search: "SearchMusicBrainz e mb
       \<lparr>Track = Name track, Artist = Join (map Artist_Name (Track_Artist track)) '', '',
        Release = Album track\<rparr> = (Inr res, mb1)"
    and first: "heap mb1 res = first # rest"
  shows "fst (GetBestRelease releases t) = sort_key releaseKey releases \<and>
         mset (fst (GetBestRelease releases t)) = mset releases \<and>
         (\<exists>entry. searchCache mb1 (generateCacheKey (cleanParams (cleaner mb)
              \<lparr>Track = Name track, Artist = Join (map Artist_Name (Track_Artist track)) '', '',
               Release = Album track\<rparr>)) = Some entry \<and> recordings entry = res) \<and>
         searchCache (snd (HydrateTrack e mb track)) = searchCache mb1 \<and>
         heap (snd (HydrateTrack e mb track)) res =
           first\<lparr>Releases := sort_key releaseKey (Releases first)\<rparr> # rest"
  using SearchMusicBrainz_returns_cached_slice [OF search]
  by (simp add: GetBestRelease_input_after HydrateTrack_heap [OF search first])

theorem GetBestRelease_sorts_the_cached_slice_witness:
  "heap (snd (HydrateTrack (unavailable 5) warm_service sample_track)) 0 =
     [recording_two\<lparr>Releases := [release_b, release_a]\<rparr>] \<and>
   fst (GetBestRelease [release_a, release_b] ''X'') = [release_b, release_a]"
proof -
  have hit: "SearchMusicBrainz (unavailable 5) warm_service
      \<lparr>Track = Name sample_track, Artist = Join (map Artist_Name (Track_Artist sample_track)) '', '',
        Release = Album sample_track\<rparr> = (Inr 0, warm_service)"
    by (simp only: sample_track_params warm_service_hit)
  from GetBestRelease_sorts_the_cached_slice
         [OF hit warm_service_heap, of "[release_a, release_b]" "''X''"]
       sample_releases_sorted
  show ?thesis
    by (simp add: recording_two_def)
qed

text \<open>
  Claim C4 as stated fails. \<^verbatim>\<open>GetBestRelease\<close> leaves the two sample releases in
  the other order. And a \<^verbatim>\<open>HydrateTrack\<close> that is answered from the cache (the
  catalog is unavailable) leaves the cache mapping as it was, yet the recordings
  that the cached entry refers to have their releases reordered.
\<close>

theorem GetBestRelease_changes_its_input:
  "fst (GetBestRelease [release_a, release_b] ''X'') = [release_b, release_a] \<and>
   [release_b, release_a] \<noteq> [release_a, release_b] \<and>
   searchCache warm_service ''track=X&artist=Band&release=Y%21''
     = Some \<lparr>recordings = 0, expiresAt = 3600000000001\<rparr> \<and>
   searchCache (snd (HydrateTrack (unavailable 5) warm_service sample_track))
     ''track=X&artist=Band&release=Y%21'' = Some \<lparr>recordings = 0, expiresAt = 3600000000001\<rparr> \<and>
   map Releases (heap warm_service 0) = [[release_a, release_b]] \<and>
   map Releases (heap (snd (HydrateTrack (unavailable 5) warm_service sample_track)) 0)
     = [[release_b, release_a]]"
proof -
  have reordered: "fst (GetBestRelease [release_a, release_b] ''X'') = [release_b, release_a]"
    by (simp only: GetBestRelease_input_after sample_releases_sorted)
  have ne: "[release_b, release_a] \<noteq> [release_a, release_b]"
    by (simp add: release_a_def release_b_def)
  have after: "snd (HydrateTrack (unavailable 5) warm_service sample_track) =
     warm_service\<lparr>heap := (heap warm_service)
        (0 := recording_two\<lparr>Releases := sort_key releaseKey (Releases recording_two)\<rparr> # [])\<rparr>"
    by (rule HydrateTrack_heap) (simp_all add: sample_track_params warm_service_hit warm_service_heap)
  have rel: "Releases recording_two = [release_a, release_b]"
    by (simp add: recording_two_def)
  from after
  have "map Releases (heap (snd (HydrateTrack (unavailable 5) warm_service sample_track)) 0)
     = [sort_key releaseKey (Releases recording_two)]" by simp
  then have "map Releases (heap (snd (HydrateTrack (unavailable 5) warm_service sample_track)) 0)
     = [[release_b, release_a]]"
    by (simp only: rel sample_releases_sorted)
  moreover have "map Releases (heap warm_service 0) = [[release_a, release_b]]"
    by (simp add: warm_service_heap recording_two_def)
  moreover have "searchCache (snd (HydrateTrack (unavailable 5) warm_service sample_track))
      = searchCache warm_service"
    by (simp add: after)
  moreover have "searchCache warm_service ''track=X&artist=Band&release=Y%21''
     = Some \<lparr>recordings = 0, expiresAt = 3600000000001\<rparr>"
    by (simp add: warm_service_eq)
  ultimately show ?thesis using reordered ne by simp
qed

end
